theory Spec2Isabelle
  imports Complex_Main "HOL-Library.Multiset"
begin

section \<open>Numbers\<close>

text \<open>
  The classifier computes on numpy float64 arrays. The embedding idealises a float as an
  exact real, extended with the one special value the program can produce from finite
  input: \<open>nan\<close>, the result of \<open>0 / 0\<close>. Rounding error of the float arithmetic is not
  modelled. A row of a 2-D array is a list, a 2-D array a list of rows.
\<close>

datatype fl = NaN | Fin real

type_synonym row = "fl list"
type_synonym matrix = "row list"

fun fl_add :: "fl \<Rightarrow> fl \<Rightarrow> fl" where
  "fl_add (Fin x) (Fin y) = Fin (x + y)"
| "fl_add _ _ = NaN"

fun fl_sub :: "fl \<Rightarrow> fl \<Rightarrow> fl" where
  "fl_sub (Fin x) (Fin y) = Fin (x - y)"
| "fl_sub _ _ = NaN"

fun fl_mul :: "fl \<Rightarrow> fl \<Rightarrow> fl" where
  "fl_mul (Fin x) (Fin y) = Fin (x * y)"
| "fl_mul _ _ = NaN"

text \<open>Comparisons with \<open>nan\<close> are false, except \<open>!=\<close>, which is true.\<close>

fun fl_less :: "fl \<Rightarrow> fl \<Rightarrow> bool" where
  "fl_less (Fin x) (Fin y) = (x < y)"
| "fl_less _ _ = False"

fun fl_ge :: "fl \<Rightarrow> fl \<Rightarrow> bool" where
  "fl_ge (Fin x) (Fin y) = (y \<le> x)"
| "fl_ge _ _ = False"

fun fl_gt :: "fl \<Rightarrow> fl \<Rightarrow> bool" where
  "fl_gt (Fin x) (Fin y) = (y < x)"
| "fl_gt _ _ = False"

fun fl_eq :: "fl \<Rightarrow> fl \<Rightarrow> bool" where
  "fl_eq (Fin x) (Fin y) = (x = y)"
| "fl_eq _ _ = False"

fun fl_ne :: "fl \<Rightarrow> fl \<Rightarrow> bool" where
  "fl_ne (Fin x) (Fin y) = (x \<noteq> y)"
| "fl_ne _ _ = True"

text \<open>
  numpy's division of \<open>x\<close> by \<open>y\<close>. For \<open>y = 0\<close> numpy warns and returns \<open>nan\<close> when
  \<open>x = 0\<close>, and an infinity otherwise. Both divisions of the program (normalisation and
  scoring) have a zero dividend whenever the divisor is zero, see \<open>col_range_zero\<close> and
  \<open>count_of_empty\<close> below, so only \<open>nan\<close> is ever produced.
\<close>

definition true_divide :: "real \<Rightarrow> real \<Rightarrow> fl" where
  "true_divide x y = (if y = 0 then NaN else Fin (x / y))"

text \<open>
  \<open>rint\<close>: the nearest integer, a tie going to the even neighbour. It is what Python's
  \<open>round(x)\<close> returns for a float, and what \<open>np.round\<close> applies after scaling.
\<close>

definition rint :: "real \<Rightarrow> int" where
  "rint x = (let f = \<lfloor>x\<rfloor>; d = x - of_int f
             in if d < 1 / 2 then f
                else if 1 / 2 < d then f + 1
                else if even f then f else f + 1)"

definition np_round :: "fl \<Rightarrow> nat \<Rightarrow> fl" where
  "np_round v decimals =
     (case v of NaN \<Rightarrow> NaN
      | Fin x \<Rightarrow> Fin (of_int (rint (x * 10 ^ decimals)) / 10 ^ decimals))"

fun np_sum :: "fl list \<Rightarrow> fl" where
  "np_sum [] = Fin 0"
| "np_sum (x # xs) = fl_add x (np_sum xs)"

text \<open>\<open>np.mean\<close>: the mean of an empty sequence is \<open>nan\<close> (with a warning).\<close>

definition np_mean :: "fl list \<Rightarrow> fl" where
  "np_mean xs =
     (case np_sum xs of NaN \<Rightarrow> NaN
      | Fin s \<Rightarrow> true_divide s (real (length xs)))"


section \<open>Inference function\<close>

text \<open>
  \<open>Linear.run_model\<close>: \<open>ws = np.sum(weights * examples, axis=1); h = ws > 0;
  return h.astype(int)\<close>. The product pairs each weight with the attribute of the same
  column; the class always calls it with as many weights as attribute columns.
\<close>

definition weighted_sum :: "fl list \<Rightarrow> row \<Rightarrow> fl" where
  "weighted_sum weights ex = np_sum (map2 fl_mul weights ex)"

definition run_model :: "fl list \<Rightarrow> matrix \<Rightarrow> int list" where
  "run_model weights examples =
     map (\<lambda>ex. if fl_gt (weighted_sum weights ex) (Fin 0) then 1 else 0) examples"


section \<open>Scorer\<close>

text \<open>
  \<open>examples[:,0:-1]\<close> drops the last column (the class label) of every row,
  \<open>examples[:,-1]\<close> is the label column. Every row of the class's data carries the bias
  column, so it is never empty.
\<close>

definition attributes :: "matrix \<Rightarrow> matrix" where
  "attributes examples = map butlast examples"

definition labels :: "matrix \<Rightarrow> fl list" where
  "labels examples = map last examples"

definition num_correct :: "fl list \<Rightarrow> matrix \<Rightarrow> nat" where
  "num_correct weights examples =
     (let h = run_model weights (attributes examples)
      in length (filter (\<lambda>(y, hi). fl_eq y (Fin (of_int hi))) (zip (labels examples) h)))"

definition num_incorrect :: "fl list \<Rightarrow> matrix \<Rightarrow> nat" where
  "num_incorrect weights examples =
     (let h = run_model weights (attributes examples)
      in length (filter (\<lambda>(y, hi). fl_ne y (Fin (of_int hi))) (zip (labels examples) h)))"

definition accuracy :: "fl list \<Rightarrow> matrix \<Rightarrow> fl" where
  "accuracy weights examples =
     np_round (fl_mul (true_divide (real (num_correct weights examples))
                                   (real (length examples))) (Fin 100)) 3"

definition error :: "fl list \<Rightarrow> matrix \<Rightarrow> fl" where
  "error weights examples =
     np_round (fl_mul (true_divide (real (num_incorrect weights examples))
                                   (real (length examples))) (Fin 100)) 3"


section \<open>Data preparer\<close>

text \<open>
  Python exceptions are values: \<open>ValueError\<close> (raised by numpy on an empty reduction, by
  \<open>set_seed\<close>, and by whatever numpy's generator rejects) and \<open>SystemExit\<close> (raised by
  \<open>sys.exit\<close>). A function that can raise returns \<open>error + 'a\<close>, \<open>Inl\<close> the exception.
\<close>

datatype error = ValueError | SystemExit

text \<open>
  The raw dataset, as \<open>np.loadtxt\<close> delivers it: a rectangular matrix of numbers, the class
  label in the last column. \<open>data.max(axis=0)\<close> and \<open>data.min(axis=0)\<close> reduce down the rows,
  column by column, and raise \<open>ValueError\<close> on an array without rows.
\<close>

definition amax :: "real list list \<Rightarrow> error + real list" where
  "amax d = (case d of [] \<Rightarrow> Inl ValueError | r # rs \<Rightarrow> Inr (foldl (map2 max) r rs))"

definition amin :: "real list list \<Rightarrow> error + real list" where
  "amin d = (case d of [] \<Rightarrow> Inl ValueError | r # rs \<Rightarrow> Inr (foldl (map2 min) r rs))"

text \<open>
  \<open>(self.data - MIN) / (MAX - MIN)\<close>, row by row (every column, the label column included),
  then \<open>np.append(np.ones([len(norm), 1]), norm, axis=1)\<close>: the bias attribute 1.0 becomes
  column 0. \<open>maxima\<close> and \<open>minima\<close> are the source's \<open>MAX\<close> and \<open>MIN\<close>.
\<close>

definition normalize_row :: "real list \<Rightarrow> real list \<Rightarrow> real list \<Rightarrow> row" where
  "normalize_row maxima minima r =
     map (\<lambda>(x, mx, mn). true_divide (x - mn) (mx - mn)) (zip r (zip maxima minima))"

definition normalize :: "real list list \<Rightarrow> error + matrix" where
  "normalize d =
     (case amax d of Inl e \<Rightarrow> Inl e
      | Inr maxima \<Rightarrow>
          (case amin d of Inl e \<Rightarrow> Inl e
           | Inr minima \<Rightarrow> Inr (map (\<lambda>r. Fin 1 # normalize_row maxima minima r) d)))"

text \<open>
  \<open>np.random.shuffle\<close> permutes the rows of its argument in place. It draws from numpy's
  global generator, which the class never seeds; the draws are an input of the model.
  numpy walks the array from the last row down to row 1 and swaps row \<open>i\<close> with a row
  \<open>j \<le> i\<close> drawn for it; \<open>draw i\<close> is the raw draw for position \<open>i\<close>.
\<close>

definition swap :: "'a list \<Rightarrow> nat \<Rightarrow> nat \<Rightarrow> 'a list" where
  "swap xs i j = xs[i := xs ! j, j := xs ! i]"

definition np_shuffle :: "(nat \<Rightarrow> nat) \<Rightarrow> 'a list \<Rightarrow> 'a list" where
  "np_shuffle draw xs =
     fold (\<lambda>i ys. swap ys i (draw i mod Suc i)) (rev [1..<length xs]) xs"

text \<open>Python slices \<open>xs[:i]\<close> and \<open>xs[i:]\<close>; a negative index counts from the end.\<close>

definition slice_to :: "int \<Rightarrow> 'a list \<Rightarrow> 'a list" where
  "slice_to i xs = (if 0 \<le> i then take (nat i) xs else take (length xs - nat (- i)) xs)"

definition slice_from :: "int \<Rightarrow> 'a list \<Rightarrow> 'a list" where
  "slice_from i xs = (if 0 \<le> i then drop (nat i) xs else drop (length xs - nat (- i)) xs)"


section \<open>Model state\<close>

text \<open>
  What numpy's random module contributes to one call: \<open>pcg64_random seed n\<close> stands for
  \<open>np.random.default_rng(seed).random(n)\<close> (the generator is not part of the repository; it
  returns \<open>Inl\<close> where numpy raises); \<open>legacy_draw\<close> are the draws of the global generator
  that the call's shuffle consumes; \<open>os_entropy\<close> is the entropy an unseeded
  \<open>default_rng\<close> reads from the operating system.
\<close>

record numpy_random =
  pcg64_random :: "int \<Rightarrow> int \<Rightarrow> error + real list"
  legacy_draw :: "nat \<Rightarrow> nat"
  os_entropy :: int

definition default_rng_random :: "numpy_random \<Rightarrow> int option \<Rightarrow> int \<Rightarrow> error + real list" where
  "default_rng_random np sd n =
     (case sd of None \<Rightarrow> pcg64_random np (os_entropy np) n
      | Some s \<Rightarrow> pcg64_random np s n)"

text \<open>
  The attributes of a \<open>Linear\<close> object. \<open>self.shuffled = self.norm[:]\<close> is a view of the
  array \<open>self.norm\<close>, not a copy, and \<open>trainSS\<close> and \<open>testSS\<close> are views of that view: the
  shuffle rewrites the one buffer all of them read. \<open>warnings_emitted\<close> collects the
  messages passed to \<open>warnings.warn\<close>; printing to standard output is not modelled.
\<close>

record model =
  training :: real
  threshold :: real
  eta :: real
  seed :: "int option"
  max_epochs :: int
  verbose :: bool
  data :: "real list list"
  norm :: matrix
  shuffled :: matrix
  trainSS :: matrix
  testSS :: matrix
  weights :: "fl list"
  warnings_emitted :: "string list"

text \<open>\<open>self.norm.shape[1]\<close>: the number of columns.\<close>

definition ncols :: "matrix \<Rightarrow> nat" where
  "ncols a = (case a of [] \<Rightarrow> 0 | r # _ \<Rightarrow> length r)"

definition initialize :: "numpy_random \<Rightarrow> bool \<Rightarrow> model \<Rightarrow> error + model" where
  "initialize np shuffle m =
     (let m1 = (if shuffle
                then (let sh = np_shuffle (legacy_draw np) (norm m);
                          trainInd = rint (training m * real (length sh))
                      in m\<lparr>norm := sh, shuffled := sh,
                           trainSS := slice_to trainInd sh,
                           testSS := slice_from trainInd sh\<rparr>)
                else m);
          num_weights = int (ncols (norm m1)) - 1
      in case default_rng_random np (seed m1) num_weights of
           Inl e \<Rightarrow> Inl e
         | Inr ws \<Rightarrow> Inr (m1\<lparr>weights := map Fin ws\<rparr>))"

text \<open>
  \<open>Linear.__init__\<close>, after \<open>np.loadtxt\<close> has read the file. The attributes that
  \<open>initialize(shuffle=True)\<close> assigns do not exist before it; they start empty here.
\<close>

definition init ::
  "numpy_random \<Rightarrow> real list list \<Rightarrow> real \<Rightarrow> real \<Rightarrow> real \<Rightarrow> int option \<Rightarrow> int \<Rightarrow> bool
     \<Rightarrow> error + model" where
  "init np dat train thr lr sd maxep verb =
     (case normalize dat of
        Inl e \<Rightarrow> Inl e
      | Inr nm \<Rightarrow>
          initialize np True
            \<lparr>training = train, threshold = thr * 100, eta = lr, seed = sd,
             max_epochs = maxep, verbose = verb, data = dat, norm = nm,
             shuffled = [], trainSS = [], testSS = [], weights = [],
             warnings_emitted = []\<rparr>)"

definition set_train_subset :: "real \<Rightarrow> model \<Rightarrow> model" where
  "set_train_subset fraction m = m\<lparr>training := fraction\<rparr>"


definition set_lr :: "real \<Rightarrow> model \<Rightarrow> model" where
  "set_lr lr m = m\<lparr>eta := lr\<rparr>"

definition set_verbose :: "bool \<Rightarrow> model \<Rightarrow> model" where
  "set_verbose v m = m\<lparr>verbose := v\<rparr>"

text \<open>
  The values a caller can pass as \<open>seed\<close>: \<open>None\<close>, an integer, a float or a string.
  \<open>truthy\<close> is Python's truth value, \<open>lower\<close> is \<open>str.lower\<close> on ASCII.
\<close>

datatype pyval = PyNone | PyInt int | PyFloat real | PyStr string

fun truthy :: "pyval \<Rightarrow> bool" where
  "truthy PyNone = False"
| "truthy (PyInt i) = (i \<noteq> 0)"
| "truthy (PyFloat x) = (x \<noteq> 0)"
| "truthy (PyStr s) = (s \<noteq> [])"

definition lower_char :: "char \<Rightarrow> char" where
  "lower_char c =
     (let n = of_char c :: nat in if 65 \<le> n \<and> n \<le> 90 then char_of (n + 32) else c)"

definition lower :: "string \<Rightarrow> string" where
  "lower s = map lower_char s"

definition seed_warning :: string where
  "seed_warning = ''Random seed has been set and may be different than what was used to initiate this Linear instance.''"

definition set_seed :: "pyval \<Rightarrow> model \<Rightarrow> error + model" where
  "set_seed sd m =
     (case (case sd of
              PyInt i \<Rightarrow> Inr (m\<lparr>seed := Some i\<rparr>)
            | PyStr s \<Rightarrow> if lower s = ''none'' then Inr (m\<lparr>seed := None\<rparr>) else Inl ValueError
            | _ \<Rightarrow> Inl ValueError) of
        Inl e \<Rightarrow> Inl e
      | Inr m1 \<Rightarrow> Inr (m1\<lparr>warnings_emitted := warnings_emitted m1 @ [seed_warning]\<rparr>))"

definition reset :: "numpy_random \<Rightarrow> bool \<Rightarrow> pyval \<Rightarrow> model \<Rightarrow> error + model" where
  "reset np shuffle sd m =
     (if truthy sd
      then (case set_seed sd m of Inl e \<Rightarrow> Inl e | Inr m1 \<Rightarrow> initialize np shuffle m1)
      else initialize np shuffle m)"


section \<open>Trainer\<close>

text \<open>\<open>self.weights = self.weights + (self.eta * (tar - hyp) * att)\<close>, element by element.\<close>

definition adjust_weights :: "row \<Rightarrow> fl \<Rightarrow> int \<Rightarrow> model \<Rightarrow> model" where
  "adjust_weights att tar hyp m =
     m\<lparr>weights :=
         map2 fl_add (weights m)
           (map (\<lambda>a. fl_mul (fl_mul (Fin (eta m)) (fl_sub tar (Fin (of_int hyp)))) a) att)\<rparr>"

definition test :: "bool \<Rightarrow> model \<Rightarrow> fl \<times> fl" where
  "test traindata m =
     (let ds = (if traindata then trainSS m else testSS m)
      in (accuracy (weights m) ds, error (weights m) ds))"

text \<open>
  The body of \<open>for ex in self.trainSS\<close>: the hypothesis is computed on the one example
  with the weights as they are now, and the weights are adjusted at once.
\<close>

definition train_example :: "row \<Rightarrow> model \<Rightarrow> model" where
  "train_example ex m =
     (let attrs = butlast ex;
          classLabel = last ex;
          hypothesis = run_model (weights m) [attrs]
      in adjust_weights attrs classLabel (hd hypothesis) m)"

definition epoch :: "model \<Rightarrow> model" where
  "epoch m = fold train_example (trainSS m) m"

text \<open>The attributes \<open>train\<close> creates on the object.\<close>

record run =
  epoch_num :: int
  train_accs :: "fl list"
  trainAcc :: fl
  trainErr :: fl

text \<open>\<open>self.train_accs[-3:]\<close>: the last three entries, or all of them when there are fewer.\<close>

definition last3 :: "'a list \<Rightarrow> 'a list" where
  "last3 xs = drop (length xs - 3) xs"

definition keep_training :: "model \<Rightarrow> run \<Rightarrow> bool" where
  "keep_training m r = fl_less (np_mean (last3 (train_accs r))) (Fin (threshold m))"

definition record_scores :: "model \<Rightarrow> run \<Rightarrow> run" where
  "record_scores m r =
     (let (acc, err) = test True m
      in r\<lparr>trainAcc := acc, trainErr := err, train_accs := train_accs r @ [acc]\<rparr>)"

text \<open>An epoch assigns \<open>self.weights\<close> and nothing else.\<close>

lemma train_example_frame: "train_example ex m = m\<lparr>weights := weights (train_example ex m)\<rparr>"
  by (simp add: train_example_def adjust_weights_def Let_def)

lemma fold_train_example_frame:
  "fold train_example xs m = m\<lparr>weights := weights (fold train_example xs m)\<rparr>"
proof (induction xs arbitrary: m)
  case Nil
  show ?case by simp
next
  case (Cons x xs)
  have "fold train_example (x # xs) m = fold train_example xs (train_example x m)"
    by simp
  also have "\<dots> = (train_example x m)\<lparr>weights := weights (fold train_example xs (train_example x m))\<rparr>"
    by (rule Cons.IH)
  also have "\<dots> = m\<lparr>weights := weights (fold train_example xs (train_example x m))\<rparr>"
    by (subst train_example_frame) simp
  finally show ?case by simp
qed

lemma epoch_frame: "epoch m = m\<lparr>weights := weights (epoch m)\<rparr>"
  unfolding epoch_def by (rule fold_train_example_frame)

lemma max_epochs_epoch [simp]: "max_epochs (epoch m) = max_epochs m"
  by (subst epoch_frame) simp

lemma trainSS_epoch [simp]: "trainSS (epoch m) = trainSS m"
  by (subst epoch_frame) simp

lemma threshold_epoch [simp]: "threshold (epoch m) = threshold m"
  by (subst epoch_frame) simp

lemma epoch_num_record_scores [simp]: "epoch_num (record_scores m r) = epoch_num r"
  by (simp add: record_scores_def Let_def split: prod.splits)

text \<open>
  The \<open>while\<close> loop of \<open>train\<close>. One pass: the stopping condition is checked; if training
  goes on, the epoch counter is incremented and compared with the budget (\<open>sys.exit\<close> when
  it is exceeded), then every training example is presented and the model is scored again.
\<close>

function train_loop :: "model \<Rightarrow> run \<Rightarrow> error + model \<times> run" where
  "train_loop m r =
     (if keep_training m r
      then (let r1 = r\<lparr>epoch_num := epoch_num r + 1\<rparr>
            in if epoch_num r1 > max_epochs m then Inl SystemExit
               else train_loop (epoch m) (record_scores (epoch m) r1))
      else Inr (m, r))"
  by pat_completeness auto
termination
  by (relation "measure (\<lambda>(m, r). nat (max_epochs m + 1 - epoch_num r))") auto

declare train_loop.simps [simp del]

definition train :: "model \<Rightarrow> error + model \<times> run \<times> fl \<times> fl" where
  "train m =
     (let (acc, err) = test True m;
          r0 = \<lparr>epoch_num = 0, train_accs = [] @ [acc], trainAcc = acc, trainErr = err\<rparr>
      in case train_loop m r0 of
           Inl e \<Rightarrow> Inl e
         | Inr (m1, r1) \<Rightarrow> (let (testAcc, testErr) = test False m1
                            in Inr (m1, r1, testAcc, testErr)))"

text \<open>
  The same loop with a budget of stopping-condition checks: each check spends one unit,
  and \<open>None\<close> means the budget ran out before the loop ended.
\<close>

fun train_loop_within :: "nat \<Rightarrow> model \<Rightarrow> run \<Rightarrow> (error + model \<times> run) option" where
  "train_loop_within 0 m r = None"
| "train_loop_within (Suc checks) m r =
     (if keep_training m r
      then (let r1 = r\<lparr>epoch_num := epoch_num r + 1\<rparr>
            in if epoch_num r1 > max_epochs m then Some (Inl SystemExit)
               else train_loop_within checks (epoch m) (record_scores (epoch m) r1))
      else Some (Inr (m, r)))"


section \<open>Concrete inputs\<close>

text \<open>
  A small run, used to evaluate the definitions: three examples with one attribute, a
  stand-in generator that returns \<open>n\<close> copies of the seed's last digit divided by 10, and
  global draws that make the shuffle rotate the rows. \<open>demo_model\<close> is the object that
  \<open>Linear(data, train=0.5, threshold=0.6, lr=1, seed=5, max_epochs=10, verbose=False)\<close>
  builds from them (\<open>demo_init\<close> below), \<open>demo_fresh\<close> is that object just before
  \<open>initialize\<close>, \<open>demo_model_unshuffled\<close> is what other global draws (a shuffle that moves
  nothing) make of it, \<open>demo_model_again\<close> is \<open>demo_model\<close> after a second
  \<open>initialize(shuffle=True)\<close> with the same draws, and \<open>demo_trained\<close> and \<open>demo_run\<close> are what \<open>train\<close> leaves
  (\<open>demo_train\<close>).
\<close>

definition demo_numpy :: numpy_random where
  "demo_numpy =
     \<lparr>pcg64_random = (\<lambda>s n. Inr (replicate (nat n) (real_of_int (s mod 10) / 10))),
      legacy_draw = (\<lambda>i. i + 1), os_entropy = 3\<rparr>"

definition demo_data :: "real list list" where
  "demo_data = [[2, 0], [7, 1], [3, 0]]"

definition demo_model :: model where
  "demo_model =
     \<lparr>training = 1 / 2, threshold = 60, eta = 1, seed = Some 5, max_epochs = 10, verbose = False,
      data = [[2, 0], [7, 1], [3, 0]],
      norm = [[Fin 1, Fin 1, Fin 1], [Fin 1, Fin (1 / 5), Fin 0], [Fin 1, Fin 0, Fin 0]],
      shuffled = [[Fin 1, Fin 1, Fin 1], [Fin 1, Fin (1 / 5), Fin 0], [Fin 1, Fin 0, Fin 0]],
      trainSS = [[Fin 1, Fin 1, Fin 1], [Fin 1, Fin (1 / 5), Fin 0]],
      testSS = [[Fin 1, Fin 0, Fin 0]],
      weights = [Fin (1 / 2), Fin (1 / 2)], warnings_emitted = []\<rparr>"

definition demo_run :: run where
  "demo_run = \<lparr>epoch_num = 2, train_accs = [Fin 50, Fin 50, Fin 100],
                trainAcc = Fin 100, trainErr = Fin 0\<rparr>"

definition demo_trained :: model where
  "demo_trained = demo_model\<lparr>weights := [Fin (- 1 / 2), Fin (11 / 10)]\<rparr>"

definition demo_fresh :: model where
  "demo_fresh =
     \<lparr>training = 1 / 2, threshold = 60, eta = 1, seed = Some 5, max_epochs = 10, verbose = False,
      data = [[2, 0], [7, 1], [3, 0]],
      norm = [[Fin 1, Fin 0, Fin 0], [Fin 1, Fin 1, Fin 1], [Fin 1, Fin (1 / 5), Fin 0]],
      shuffled = [], trainSS = [], testSS = [], weights = [], warnings_emitted = []\<rparr>"

definition demo_model_unshuffled :: model where
  "demo_model_unshuffled =
     \<lparr>training = 1 / 2, threshold = 60, eta = 1, seed = Some 5, max_epochs = 10, verbose = False,
      data = [[2, 0], [7, 1], [3, 0]],
      norm = [[Fin 1, Fin 0, Fin 0], [Fin 1, Fin 1, Fin 1], [Fin 1, Fin (1 / 5), Fin 0]],
      shuffled = [[Fin 1, Fin 0, Fin 0], [Fin 1, Fin 1, Fin 1], [Fin 1, Fin (1 / 5), Fin 0]],
      trainSS = [[Fin 1, Fin 0, Fin 0], [Fin 1, Fin 1, Fin 1]],
      testSS = [[Fin 1, Fin (1 / 5), Fin 0]],
      weights = [Fin (1 / 2), Fin (1 / 2)], warnings_emitted = []\<rparr>"

definition demo_model_again :: model where
  "demo_model_again =
     demo_model
       \<lparr>norm := [[Fin 1, Fin (1 / 5), Fin 0], [Fin 1, Fin 0, Fin 0], [Fin 1, Fin 1, Fin 1]],
        shuffled := [[Fin 1, Fin (1 / 5), Fin 0], [Fin 1, Fin 0, Fin 0], [Fin 1, Fin 1, Fin 1]],
        trainSS := [[Fin 1, Fin (1 / 5), Fin 0], [Fin 1, Fin 0, Fin 0]],
        testSS := [[Fin 1, Fin 1, Fin 1]]\<rparr>"

definition demo_run0 :: run where
  "demo_run0 = \<lparr>epoch_num = 0, train_accs = [Fin 50], trainAcc = Fin 50, trainErr = Fin 50\<rparr>"


section \<open>Facts about the numbers\<close>




lemma count_of_empty: "num_correct w [] = 0 \<and> num_incorrect w [] = 0"
  by (simp add: num_correct_def num_incorrect_def run_model_def attributes_def labels_def)









section \<open>Facts about the data preparer\<close>

lemma foldl_map2_column:
  "\<forall>r \<in> set rs. length r = length r0 \<Longrightarrow>
     length (foldl (map2 f) r0 rs) = length r0
     \<and> (\<forall>j < length r0. foldl (map2 f) r0 rs ! j = foldl f (r0 ! j) (map (\<lambda>r. r ! j) rs))"
proof (induction rs arbitrary: r0)
  case Nil
  show ?case by simp
next
  case (Cons r rs)
  have len: "length (map2 f r0 r) = length r0" using Cons.prems by simp
  have "\<forall>r' \<in> set rs. length r' = length (map2 f r0 r)"
    using Cons.prems by simp
  from Cons.IH [OF this] show ?case
    using Cons.prems by simp
qed

lemma foldl_max_bounds:
  fixes a :: real
  shows "a \<le> foldl max a xs \<and> (\<forall>x \<in> set xs. x \<le> foldl max a xs)
         \<and> foldl max a xs \<in> insert a (set xs)"
proof (induction xs arbitrary: a)
  case Nil
  show ?case by simp
next
  case (Cons x xs)
  from Cons.IH [of "max a x"] show ?case
    by (auto simp: max_def split: if_splits)
qed

lemma foldl_min_bounds:
  fixes a :: real
  shows "foldl min a xs \<le> a \<and> (\<forall>x \<in> set xs. foldl min a xs \<le> x)
         \<and> foldl min a xs \<in> insert a (set xs)"
proof (induction xs arbitrary: a)
  case Nil
  show ?case by simp
next
  case (Cons x xs)
  from Cons.IH [of "min a x"] show ?case
    by (auto simp: min_def split: if_splits)
qed

lemma amax_column:
  assumes "d \<noteq> []" and "\<forall>r \<in> set d. length r = k" and "j < k"
  shows "\<exists>maxima. amax d = Inr maxima \<and> length maxima = k
           \<and> maxima ! j = Max ((\<lambda>r. r ! j) ` set d)"
proof -
  from assms(1) obtain r0 rs where d: "d = r0 # rs" by (cases d) auto
  let ?M = "foldl (map2 max) r0 rs"
  have r0: "length r0 = k" and rs: "\<forall>r \<in> set rs. length r = length r0"
    using assms(2) d by simp_all
  from foldl_map2_column [OF rs, of max]
  have len: "length ?M = k" and nth: "?M ! j = foldl max (r0 ! j) (map (\<lambda>r. r ! j) rs)"
    using r0 assms(3) by simp_all
  have col: "(\<lambda>r. r ! j) ` set d = insert (r0 ! j) (set (map (\<lambda>r. r ! j) rs))"
    by (simp add: d)
  have "Max ((\<lambda>r. r ! j) ` set d) = ?M ! j"
    unfolding col nth
    using foldl_max_bounds [of "r0 ! j" "map (\<lambda>r. r ! j) rs"]
    by (intro Max_eqI) auto
  then show ?thesis by (simp add: amax_def d len)
qed

lemma amin_column:
  assumes "d \<noteq> []" and "\<forall>r \<in> set d. length r = k" and "j < k"
  shows "\<exists>minima. amin d = Inr minima \<and> length minima = k
           \<and> minima ! j = Min ((\<lambda>r. r ! j) ` set d)"
proof -
  from assms(1) obtain r0 rs where d: "d = r0 # rs" by (cases d) auto
  let ?M = "foldl (map2 min) r0 rs"
  have r0: "length r0 = k" and rs: "\<forall>r \<in> set rs. length r = length r0"
    using assms(2) d by simp_all
  from foldl_map2_column [OF rs, of min]
  have len: "length ?M = k" and nth: "?M ! j = foldl min (r0 ! j) (map (\<lambda>r. r ! j) rs)"
    using r0 assms(3) by simp_all
  have col: "(\<lambda>r. r ! j) ` set d = insert (r0 ! j) (set (map (\<lambda>r. r ! j) rs))"
    by (simp add: d)
  have "Min ((\<lambda>r. r ! j) ` set d) = ?M ! j"
    unfolding col nth
    using foldl_min_bounds [of "r0 ! j" "map (\<lambda>r. r ! j) rs"]
    by (intro Min_eqI) auto
  then show ?thesis by (simp add: amin_def d len)
qed

lemma nth_normalize_row:
  "j < length r \<Longrightarrow> length maxima = length r \<Longrightarrow> length minima = length r \<Longrightarrow>
     normalize_row maxima minima r ! j = true_divide (r ! j - minima ! j) (maxima ! j - minima ! j)"
  by (simp add: normalize_row_def)

lemma length_normalize_row:
  "length maxima = length r \<Longrightarrow> length minima = length r \<Longrightarrow>
     length (normalize_row maxima minima r) = length r"
  by (simp add: normalize_row_def)

text \<open>The dividend of the normalisation is zero whenever its divisor is.\<close>

lemma col_range_zero:
  fixes d :: "real list list"
  assumes "d \<noteq> []" and "\<forall>r \<in> set d. length r = k" and "j < k"
    and "Max ((\<lambda>r. r ! j) ` set d) - Min ((\<lambda>r. r ! j) ` set d) = 0" and "r \<in> set d"
  shows "r ! j - Min ((\<lambda>r. r ! j) ` set d) = 0"
proof -
  have "r ! j \<le> Max ((\<lambda>r. r ! j) ` set d)" and "Min ((\<lambda>r. r ! j) ` set d) \<le> r ! j"
    using assms(5) by simp_all
  with assms(4) show ?thesis by linarith
qed

lemma mset_swap_rows: "i < length xs \<Longrightarrow> j < length xs \<Longrightarrow> mset (swap xs i j) = mset xs"
  unfolding swap_def by (rule mset_swap)

lemma length_swap [simp]: "length (swap xs i j) = length xs"
  by (simp add: swap_def)

lemma fold_swap_perm:
  "\<forall>i \<in> set is. i < length xs \<Longrightarrow>
     mset (fold (\<lambda>i ys. swap ys i (f i mod Suc i)) is xs) = mset xs
     \<and> length (fold (\<lambda>i ys. swap ys i (f i mod Suc i)) is xs) = length xs"
proof (induction "is" arbitrary: xs)
  case Nil
  show ?case by simp
next
  case (Cons i "is")
  have i: "i < length xs" using Cons.prems by simp
  have j: "f i mod Suc i < length xs"
    using i by (meson le_less_trans mod_less_divisor less_Suc_eq_le zero_less_Suc)
  have "\<forall>k \<in> set is. k < length (swap xs i (f i mod Suc i))"
    using Cons.prems by simp
  from Cons.IH [OF this] show ?case
    by (simp add: mset_swap_rows [OF i j])
qed

lemma np_shuffle_perm: "mset (np_shuffle draw xs) = mset xs"
  unfolding np_shuffle_def by (rule fold_swap_perm [THEN conjunct1]) simp

lemma length_np_shuffle [simp]: "length (np_shuffle draw xs) = length xs"
  unfolding np_shuffle_def by (rule fold_swap_perm [THEN conjunct2]) simp

lemma slices_partition: "slice_to i xs @ slice_from i xs = xs"
  by (simp add: slice_to_def slice_from_def)




lemma initialize_shuffle:
  assumes "initialize np True m = Inr m'"
  shows "norm m' = np_shuffle (legacy_draw np) (norm m)"
    and "shuffled m' = norm m'"
    and "trainSS m' = slice_to (rint (training m * real (length (norm m)))) (norm m')"
    and "testSS m' = slice_from (rint (training m * real (length (norm m)))) (norm m')"
    and "training m' = training m" and "seed m' = seed m" and "data m' = data m"
  using assms by (auto simp: initialize_def Let_def split: sum.splits)

lemma initialize_no_shuffle:
  assumes "initialize np False m = Inr m'"
  shows "m' = m\<lparr>weights := weights m'\<rparr>"
  using assms by (auto simp: initialize_def Let_def split: sum.splits)

lemma initialize_weights:
  "initialize np sh m = Inr m' \<Longrightarrow>
     \<exists>ws. default_rng_random np (seed m) (int (ncols (norm m')) - 1) = Inr ws
          \<and> weights m' = map Fin ws"
  by (auto simp: initialize_def Let_def split: sum.splits if_splits)

lemma normalize_rows:
  assumes "normalize d = Inr nm" and "\<forall>r \<in> set d. length r = k"
  shows "nm \<noteq> [] \<and> (\<forall>r \<in> set nm. length r = Suc k)"
proof -
  from assms(1) have ne: "d \<noteq> []"
    by (auto simp: normalize_def amax_def)
  then obtain r0 rs where d: "d = r0 # rs" by (cases d) auto
  have rs: "\<forall>r \<in> set rs. length r = length r0" and r0: "length r0 = k"
    using assms(2) d by simp_all
  have lmax: "length (foldl (map2 max) r0 rs) = k" and lmin: "length (foldl (map2 min) r0 rs) = k"
    using foldl_map2_column [OF rs] r0 by simp_all
  have nm: "nm = map (\<lambda>r. Fin 1 # normalize_row (foldl (map2 max) r0 rs) (foldl (map2 min) r0 rs) r) d"
    using assms(1) by (simp add: normalize_def amax_def amin_def d)
  have "\<forall>r \<in> set nm. length r = Suc k"
    using assms(2) lmax lmin by (simp add: nm length_normalize_row)
  moreover have "nm \<noteq> []" using ne by (simp add: nm)
  ultimately show ?thesis by simp
qed

lemma ncols_uniform: "a \<noteq> [] \<Longrightarrow> \<forall>r \<in> set a. length r = n \<Longrightarrow> ncols a = n"
  by (cases a) (simp_all add: ncols_def)

lemma ncols_np_shuffle:
  assumes "a \<noteq> []" and "\<forall>r \<in> set a. length r = n"
  shows "ncols (np_shuffle draw a) = n"
proof -
  have "set (np_shuffle draw a) = set a"
    using np_shuffle_perm [of draw a] by (rule mset_eq_setD)
  moreover have "np_shuffle draw a \<noteq> []"
    using assms(1) length_np_shuffle [of draw a] by (metis length_0_conv)
  ultimately show ?thesis
    using assms(2) by (intro ncols_uniform) simp_all
qed

lemma init_Inr:
  assumes "init np dat tr thr lr sd me vb = Inr m"
  shows "\<exists>nm. normalize dat = Inr nm
           \<and> norm m = np_shuffle (legacy_draw np) nm
           \<and> trainSS m = slice_to (rint (tr * real (length nm))) (norm m)
           \<and> testSS m = slice_from (rint (tr * real (length nm))) (norm m)
           \<and> seed m = sd
           \<and> (\<exists>ws. default_rng_random np sd (int (ncols (norm m)) - 1) = Inr ws
                  \<and> weights m = map Fin ws)"
proof -
  from assms obtain nm where nm: "normalize dat = Inr nm"
    by (cases "normalize dat") (simp_all add: init_def)
  let ?m0 = "\<lparr>training = tr, threshold = thr * 100, eta = lr, seed = sd,
             max_epochs = me, verbose = vb, data = dat, norm = nm,
             shuffled = [], trainSS = [], testSS = [], weights = [],
             warnings_emitted = []\<rparr>"
  have ini: "initialize np True ?m0 = Inr m"
    using assms nm by (simp add: init_def)
  from initialize_shuffle [OF ini] initialize_weights [OF ini] nm show ?thesis
    by simp
qed

lemma initialize_norm:
  "initialize np sh m = Inr m' \<Longrightarrow>
     norm m' = (if sh then np_shuffle (legacy_draw np) (norm m) else norm m) \<and> seed m' = seed m"
  by (auto simp: initialize_def Let_def split: sum.splits if_splits)

lemma ncols_initialize:
  assumes "initialize np sh m = Inr m'" and "norm m \<noteq> []" and "\<forall>r \<in> set (norm m). length r = n"
  shows "ncols (norm m') = n \<and> norm m' \<noteq> [] \<and> (\<forall>r \<in> set (norm m'). length r = n)"
proof (cases sh)
  case True
  with assms(1) have nm: "norm m' = np_shuffle (legacy_draw np) (norm m)"
    using initialize_norm by simp
  have "set (norm m') = set (norm m)"
    unfolding nm using np_shuffle_perm [of "legacy_draw np" "norm m"] by (rule mset_eq_setD)
  moreover have "norm m' \<noteq> []"
    unfolding nm using assms(2) length_np_shuffle [of "legacy_draw np" "norm m"]
    by (metis length_0_conv)
  ultimately show ?thesis using assms(3) by (simp add: ncols_uniform)
next
  case False
  with assms(1) have "norm m' = norm m" using initialize_norm by simp
  with assms(2,3) show ?thesis by (simp add: ncols_uniform)
qed

lemma reinitialize_same_weights:
  assumes "norm m \<noteq> []" and "\<forall>r \<in> set (norm m). length r = n" and "seed m = Some s"
    and "initialize np1 sh1 m = Inr m1" and "initialize np2 sh2 m1 = Inr m2"
    and "pcg64_random np1 = pcg64_random np2"
  shows "weights m1 = weights m2"
proof -
  from ncols_initialize [OF assms(4,1,2)]
  have c1: "ncols (norm m1) = n" and ne1: "norm m1 \<noteq> []" and u1: "\<forall>r \<in> set (norm m1). length r = n"
    by simp_all
  from ncols_initialize [OF assms(5) ne1 u1] have c2: "ncols (norm m2) = n" by simp
  have s1: "seed m1 = Some s" using initialize_norm [OF assms(4)] assms(3) by simp
  from initialize_weights [OF assms(4)] obtain ws1
    where w1: "default_rng_random np1 (seed m) (int (ncols (norm m1)) - 1) = Inr ws1"
              "weights m1 = map Fin ws1" by blast
  from initialize_weights [OF assms(5)] obtain ws2
    where w2: "default_rng_random np2 (seed m1) (int (ncols (norm m2)) - 1) = Inr ws2"
              "weights m2 = map Fin ws2" by blast
  from w1 w2 c1 c2 s1 assms(3,6) show ?thesis
    by (simp add: default_rng_random_def)
qed


section \<open>Facts about the seed\<close>

lemma lower_None: "lower ''None'' = ''none''"
  by code_simp

lemma lower_empty: "lower [] \<noteq> ''none''"
  by (simp add: lower_def)


lemma set_seed_int:
  "set_seed (PyInt i) m = Inr (m\<lparr>seed := Some i, warnings_emitted := warnings_emitted m @ [seed_warning]\<rparr>)"
  by (simp add: set_seed_def)

lemma set_seed_none:
  "lower s = ''none'' \<Longrightarrow>
     set_seed (PyStr s) m = Inr (m\<lparr>seed := None, warnings_emitted := warnings_emitted m @ [seed_warning]\<rparr>)"
  by (simp add: set_seed_def)

lemma set_seed_other:
  "set_seed (PyFloat x) m = Inl ValueError" "set_seed PyNone m = Inl ValueError"
  "lower s \<noteq> ''none'' \<Longrightarrow> set_seed (PyStr s) m = Inl ValueError"
  by (simp_all add: set_seed_def)

lemma reset_truthy_seed:
  "i \<noteq> 0 \<Longrightarrow> reset np sh (PyInt i) m
     = initialize np sh (m\<lparr>seed := Some i, warnings_emitted := warnings_emitted m @ [seed_warning]\<rparr>)"
  "s \<noteq> [] \<Longrightarrow> lower s = ''none'' \<Longrightarrow> reset np sh (PyStr s) m
     = initialize np sh (m\<lparr>seed := None, warnings_emitted := warnings_emitted m @ [seed_warning]\<rparr>)"
  "s \<noteq> [] \<Longrightarrow> lower s \<noteq> ''none'' \<Longrightarrow> reset np sh (PyStr s) m = Inl ValueError"
  "x \<noteq> 0 \<Longrightarrow> reset np sh (PyFloat x) m = Inl ValueError"
  "reset np sh PyNone m = initialize np sh m"
  by (simp_all add: reset_def set_seed_int set_seed_none set_seed_other)


section \<open>Facts about the training loop\<close>







lemma train_loop_stop: "\<not> keep_training m r \<Longrightarrow> train_loop m r = Inr (m, r)"
  by (simp add: train_loop.simps)

lemma train_loop_exit:
  "keep_training m r \<Longrightarrow> max_epochs m < epoch_num r + 1 \<Longrightarrow> train_loop m r = Inl SystemExit"
  by (simp add: train_loop.simps)

lemma train_loop_step:
  "keep_training m r \<Longrightarrow> epoch_num r + 1 \<le> max_epochs m \<Longrightarrow>
     train_loop m r = train_loop (epoch m) (record_scores (epoch m) (r\<lparr>epoch_num := epoch_num r + 1\<rparr>))"
  by (subst train_loop.simps) (simp add: Let_def)

lemma train_loop_result:
  "train_loop m r = Inr (m', r') \<Longrightarrow>
     \<not> keep_training m' r' \<and> epoch_num r \<le> epoch_num r' \<and> max_epochs m' = max_epochs m
     \<and> (epoch_num r' = epoch_num r \<longrightarrow> m' = m \<and> r' = r)
     \<and> (epoch_num r \<le> max_epochs m \<longrightarrow> epoch_num r' \<le> max_epochs m)
     \<and> int (length (train_accs r')) - epoch_num r' = int (length (train_accs r)) - epoch_num r
     \<and> trainSS m' = trainSS m \<and> threshold m' = threshold m"
proof (induction m r rule: train_loop.induct)
  case (1 m r)
  show ?case
  proof (cases "keep_training m r")
    case False
    with "1.prems" show ?thesis by (simp add: train_loop_stop)
  next
    case True
    show ?thesis
    proof (cases "max_epochs m < epoch_num r + 1")
      case True
      with \<open>keep_training m r\<close> "1.prems" show ?thesis by (simp add: train_loop_exit)
    next
      case False
      let ?r1 = "r\<lparr>epoch_num := epoch_num r + 1\<rparr>"
      let ?r2 = "record_scores (epoch m) ?r1"
      from False \<open>keep_training m r\<close> "1.prems"
      have run: "train_loop (epoch m) ?r2 = Inr (m', r')"
        by (simp add: train_loop_step)
      have ih: "\<not> keep_training m' r' \<and> epoch_num ?r2 \<le> epoch_num r' \<and> max_epochs m' = max_epochs (epoch m)
     \<and> (epoch_num r' = epoch_num ?r2 \<longrightarrow> m' = epoch m \<and> r' = ?r2)
     \<and> (epoch_num ?r2 \<le> max_epochs (epoch m) \<longrightarrow> epoch_num r' \<le> max_epochs (epoch m))
     \<and> int (length (train_accs r')) - epoch_num r' = int (length (train_accs ?r2)) - epoch_num ?r2
     \<and> trainSS m' = trainSS (epoch m) \<and> threshold m' = threshold (epoch m)"
        using "1.IH" [OF \<open>keep_training m r\<close> refl _ run] False by simp
      have len: "length (train_accs ?r2) = Suc (length (train_accs r))"
        by (simp add: record_scores_def Let_def split: prod.splits)
      show ?thesis using ih False len by simp
    qed
  qed
qed






lemma train_loop_within_enough:
  "train_loop_within (nat (max_epochs m - epoch_num r) + 1) m r = Some (train_loop m r)"
proof (induction m r rule: train_loop.induct)
  case (1 m r)
  show ?case
  proof (cases "keep_training m r")
    case False
    then show ?thesis by (simp add: train_loop_stop)
  next
    case True
    show ?thesis
    proof (cases "max_epochs m < epoch_num r + 1")
      case True
      with \<open>keep_training m r\<close> show ?thesis by (simp add: train_loop_exit)
    next
      case False
      let ?r1 = "r\<lparr>epoch_num := epoch_num r + 1\<rparr>"
      let ?r2 = "record_scores (epoch m) ?r1"
      have fuel: "nat (max_epochs m - epoch_num r) = Suc (nat (max_epochs (epoch m) - epoch_num ?r2))"
        using False by simp
      have ih: "train_loop_within (nat (max_epochs (epoch m) - epoch_num ?r2) + 1) (epoch m) ?r2
                  = Some (train_loop (epoch m) ?r2)"
        using "1.IH" [OF \<open>keep_training m r\<close> refl] False by simp
      show ?thesis
        using \<open>keep_training m r\<close> False ih
        by (simp add: fuel train_loop_step Let_def del: epoch_num_record_scores max_epochs_epoch)
    qed
  qed
qed


lemma train_Inr:
  assumes "train m = Inr (m', r', ta, te)"
  shows "\<exists>acc err. train_loop m \<lparr>epoch_num = 0, train_accs = [acc], trainAcc = acc, trainErr = err\<rparr> = Inr (m', r')
           \<and> acc = accuracy (weights m) (trainSS m)"
  using assms by (auto simp: train_def test_def Let_def split: sum.splits prod.splits)

lemma length_adjust_weights:
  "length att = length (weights m) \<Longrightarrow> length (weights (adjust_weights att tar hyp m)) = length (weights m)"
  by (simp add: adjust_weights_def)

lemma nth_adjust_weights:
  "length att = length (weights m) \<Longrightarrow> i < length (weights m) \<Longrightarrow>
     weights (adjust_weights att tar hyp m) ! i
       = fl_add (weights m ! i) (fl_mul (fl_mul (Fin (eta m)) (fl_sub tar (Fin (of_int hyp)))) (att ! i))"
  by (simp add: adjust_weights_def)


section \<open>The concrete run\<close>

lemma demo_normalize:
  "normalize demo_data = Inr [[Fin 1, Fin 0, Fin 0], [Fin 1, Fin 1, Fin 1], [Fin 1, Fin (1 / 5), Fin 0]]"
  by (simp add: demo_data_def normalize_def amax_def amin_def normalize_row_def true_divide_def)

lemma demo_shuffle:
  "np_shuffle Suc [a, b, c] = [b, c, a]"
  by (simp add: np_shuffle_def swap_def upt_rec numeral_3_eq_3)

lemma demo_init:
  "init demo_numpy demo_data (1 / 2) (6 / 10) 1 (Some 5) 10 False = Inr demo_model"
proof -
  have "initialize demo_numpy True
          \<lparr>training = 1 / 2, threshold = 6 / 10 * 100, eta = 1, seed = Some 5,
           max_epochs = 10, verbose = False, data = demo_data,
           norm = [[Fin 1, Fin 0, Fin 0], [Fin 1, Fin 1, Fin 1], [Fin 1, Fin (1 / 5), Fin 0]],
           shuffled = [], trainSS = [], testSS = [], weights = [],
           warnings_emitted = []\<rparr> = Inr demo_model"
    by (simp add: initialize_def demo_numpy_def demo_shuffle Let_def rint_def slice_to_def
        slice_from_def ncols_def default_rng_random_def demo_model_def demo_data_def
        numeral_2_eq_2)
  then show ?thesis
    by (simp add: init_def demo_normalize)
qed

lemma replicate_2: "replicate 2 x = [x, x]"
  by (simp add: numeral_2_eq_2)

lemmas init_defs = initialize_def Let_def rint_def slice_to_def slice_from_def ncols_def
  default_rng_random_def replicate_2

lemma demo_shuffle_id: "np_shuffle (\<lambda>i. i) [a, b, c] = [a, b, c]"
  by (simp add: np_shuffle_def swap_def upt_rec numeral_3_eq_3)

lemma demo_initialize: "initialize demo_numpy True demo_fresh = Inr demo_model"
  by (simp add: init_defs demo_numpy_def demo_shuffle demo_fresh_def demo_model_def)

lemma demo_initialize_unshuffled:
  "initialize (demo_numpy\<lparr>legacy_draw := (\<lambda>i. i)\<rparr>) True demo_fresh = Inr demo_model_unshuffled"
  by (simp add: init_defs demo_numpy_def demo_shuffle_id demo_fresh_def demo_model_unshuffled_def)

lemma demo_init_fresh:
  "init np demo_data (1 / 2) (6 / 10) 1 (Some 5) 10 False = initialize np True demo_fresh"
  by (simp add: init_def demo_normalize demo_fresh_def) (simp add: demo_data_def)

lemma demo_init_unshuffled:
  "init (demo_numpy\<lparr>legacy_draw := (\<lambda>i. i)\<rparr>) demo_data (1 / 2) (6 / 10) 1 (Some 5) 10 False
     = Inr demo_model_unshuffled"
  by (simp only: demo_init_fresh demo_initialize_unshuffled)

lemma demo_reinitialize: "initialize demo_numpy False demo_model = Inr demo_model"
  by (simp add: init_defs demo_numpy_def demo_model_def)

lemma demo_initialize_again: "initialize demo_numpy True demo_model = Inr demo_model_again"
  by (simp add: init_defs demo_numpy_def demo_shuffle demo_model_def demo_model_again_def)


lemma demo_init_seed7:
  "init demo_numpy demo_data (1 / 2) (6 / 10) 1 (Some 7) 10 False
     = Inr (demo_model\<lparr>seed := Some 7, weights := [Fin (7 / 10), Fin (7 / 10)]\<rparr>)"
proof -
  have "initialize demo_numpy True (demo_fresh\<lparr>seed := Some 7\<rparr>)
          = Inr (demo_model\<lparr>seed := Some 7, weights := [Fin (7 / 10), Fin (7 / 10)]\<rparr>)"
    by (simp add: init_defs demo_numpy_def demo_shuffle demo_fresh_def demo_model_def)
  then show ?thesis
    by (simp add: init_def demo_normalize demo_fresh_def) (simp add: demo_data_def)
qed

lemma demo_column: "(\<lambda>r. r ! 0) ` set demo_data = {2, 7, 3}"
  by (simp add: demo_data_def)

lemmas score_defs = test_def accuracy_def error_def num_correct_def num_incorrect_def
  run_model_def attributes_def labels_def weighted_sum_def true_divide_def np_round_def rint_def Let_def
lemmas loop_defs = keep_training_def np_mean_def last3_def epoch_def train_example_def adjust_weights_def record_scores_def

lemma demo_train:
  "train demo_model = Inr (demo_model\<lparr>weights := [Fin (- 1 / 2), Fin (11 / 10)]\<rparr>, demo_run, Fin 100, Fin 0)"
  by (simp add: demo_model_def demo_run_def train_def score_defs loop_defs train_loop.simps)

lemma demo_train_exit:
  "train (demo_model\<lparr>threshold := 101, max_epochs := 2\<rparr>) = Inl SystemExit"
  by (simp add: demo_model_def demo_run_def train_def score_defs loop_defs train_loop.simps)

lemma demo_train_result: "train demo_model = Inr (demo_trained, demo_run, Fin 100, Fin 0)"
  by (simp add: demo_train demo_trained_def)


section \<open>The training loop and its stopping rule\<close>



text \<open>
  Claim C2. Presenting one example computes the hypothesis on that example with the
  current weights and replaces every weight \<open>w\<^sub>i\<close> by
  \<open>w\<^sub>i + learning_rate * (label - hypothesis) * attribute\<^sub>i\<close>. An epoch presents the examples
  of the Training Subset in order, each one to the weights the examples before it left
  (online, not batched). With weights \<open>[-1, 0.5]\<close>, example \<open>[1, 0.2]\<close>, label 1 and
  learning rate 0.1 the hypothesis is 0 and the new weights are \<open>[-0.9, 0.52]\<close>.
\<close>

theorem online_update:
  "(length (butlast ex) = length (weights m) \<longrightarrow>
      length (weights (train_example ex m)) = length (weights m)
      \<and> (\<forall>i < length (weights m).
           weights (train_example ex m) ! i
             = fl_add (weights m ! i)
                 (fl_mul (fl_mul (Fin (eta m))
                            (fl_sub (last ex)
                               (Fin (of_int (if fl_gt (weighted_sum (weights m) (butlast ex)) (Fin 0)
                                             then 1 else 0)))))
                         (butlast ex ! i))))
   \<and> (trainSS m = before @ ex # after \<longrightarrow>
        epoch m = fold train_example after (train_example ex (fold train_example before m)))
   \<and> run_model [Fin (- 1), Fin (1 / 2)] [[Fin 1, Fin (2 / 10)]] = [0]
   \<and> weights (train_example [Fin 1, Fin (2 / 10), Fin 1]
                (m\<lparr>weights := [Fin (- 1), Fin (1 / 2)], eta := 1 / 10\<rparr>))
        = [Fin (- (9 / 10)), Fin (52 / 100)]"
proof (intro conjI impI allI)
  assume len: "length (butlast ex) = length (weights m)"
  then show "length (weights (train_example ex m)) = length (weights m)"
    by (simp add: train_example_def Let_def length_adjust_weights)
  fix i assume "i < length (weights m)"
  with len show "weights (train_example ex m) ! i
             = fl_add (weights m ! i)
                 (fl_mul (fl_mul (Fin (eta m))
                            (fl_sub (last ex)
                               (Fin (of_int (if fl_gt (weighted_sum (weights m) (butlast ex)) (Fin 0)
                                             then 1 else 0)))))
                         (butlast ex ! i))"
    by (simp add: train_example_def Let_def nth_adjust_weights run_model_def)
next
  assume "trainSS m = before @ ex # after"
  then show "epoch m = fold train_example after (train_example ex (fold train_example before m))"
    by (simp add: epoch_def)
next
  show "run_model [Fin (- 1), Fin (1 / 2)] [[Fin 1, Fin (2 / 10)]] = [0]"
    by (simp add: run_model_def weighted_sum_def)
next
  show "weights (train_example [Fin 1, Fin (2 / 10), Fin 1]
                (m\<lparr>weights := [Fin (- 1), Fin (1 / 2)], eta := 1 / 10\<rparr>))
        = [Fin (- (9 / 10)), Fin (52 / 100)]"
    by (simp add: train_example_def Let_def adjust_weights_def run_model_def weighted_sum_def)
qed

theorem online_update_witness:
  "length (butlast [Fin 1, Fin (1 / 5), Fin 0]) = length (weights demo_model)
   \<and> length (weights (train_example [Fin 1, Fin (1 / 5), Fin 0] demo_model)) = 2
   \<and> weights (train_example [Fin 1, Fin (1 / 5), Fin 0] demo_model) ! 0 = Fin (- 1 / 2)
   \<and> weights (train_example [Fin 1, Fin (1 / 5), Fin 0] demo_model) ! 1 = Fin (3 / 10)
   \<and> trainSS demo_model = [[Fin 1, Fin 1, Fin 1]] @ [Fin 1, Fin (1 / 5), Fin 0] # []
   \<and> epoch demo_model
        = fold train_example []
            (train_example [Fin 1, Fin (1 / 5), Fin 0]
               (fold train_example [[Fin 1, Fin 1, Fin 1]] demo_model))"
  using online_update [where ex = "[Fin 1, Fin (1 / 5), Fin 0]" and m = demo_model
                         and before = "[[Fin 1, Fin 1, Fin 1]]" and after = "[]"]
  by (simp add: demo_model_def weighted_sum_def)

text \<open>
  Claim C3. \<open>train\<close> starts the epoch counter at 0 with one accuracy in the history. Every
  pass of the loop that goes on adds exactly 1 to the counter before comparing it with
  \<open>max_epochs\<close>; when the counter exceeds the budget the run ends with \<open>SystemExit\<close>, which
  carries no model, and that is the only way \<open>train\<close> fails. A converged run has counted
  at most \<open>max_epochs\<close> epochs and made one check more than it counted epochs. A budget of
  \<open>max_epochs + 1\<close> stopping-condition checks is always enough for the loop to end.
\<close>

theorem epoch_budget:
  "(train m = Inr (m', r', ta, te) \<longrightarrow>
      0 \<le> epoch_num r' \<and> epoch_num r' \<le> max 0 (max_epochs m)
      \<and> int (length (train_accs r')) = epoch_num r' + 1)
   \<and> (train m = Inl e \<longrightarrow> e = SystemExit)
   \<and> (keep_training m r \<longrightarrow>
        train_loop m r =
          (if max_epochs m < epoch_num r + 1 then Inl SystemExit
           else train_loop (epoch m) (record_scores (epoch m) (r\<lparr>epoch_num := epoch_num r + 1\<rparr>))))
   \<and> epoch_num (record_scores (epoch m) (r\<lparr>epoch_num := epoch_num r + 1\<rparr>)) = epoch_num r + 1
   \<and> (epoch_num r = 0 \<longrightarrow> train_loop_within (nat (max_epochs m) + 1) m r = Some (train_loop m r))
   \<and> (\<exists>r0. epoch_num r0 = 0 \<and> length (train_accs r0) = 1 \<and>
         train m = (case train_loop m r0 of Inl e \<Rightarrow> Inl e
                    | Inr (m1, r1) \<Rightarrow> Inr (m1, r1, fst (test False m1), snd (test False m1))))"
proof (intro conjI impI)
  assume a: "train m = Inr (m', r', ta, te)"
  then obtain acc err where
    run: "train_loop m \<lparr>epoch_num = 0, train_accs = [acc], trainAcc = acc, trainErr = err\<rparr> = Inr (m', r')"
    using train_Inr by blast
  from train_loop_result [OF run]
  show "0 \<le> epoch_num r'" and "int (length (train_accs r')) = epoch_num r' + 1"
    by simp_all
  show "epoch_num r' \<le> max 0 (max_epochs m)"
  proof (cases "0 \<le> max_epochs m")
    case True
    with train_loop_result [OF run] show ?thesis by simp
  next
    case False
    let ?r0 = "\<lparr>epoch_num = 0, train_accs = [acc], trainAcc = acc, trainErr = err\<rparr>"
    have "\<not> keep_training m ?r0"
      using run False train_loop_exit [of m ?r0] by auto
    with run have "r' = ?r0" by (simp add: train_loop_stop)
    then show ?thesis by simp
  qed
next
  assume "train m = Inl e"
  then obtain r0 where "train_loop m r0 = Inl e"
    by (auto simp: train_def Let_def split: sum.splits prod.splits)
  then show "e = SystemExit"
  proof (induction m r0 rule: train_loop.induct)
    case (1 m r)
    show ?case
    proof (cases "keep_training m r")
      case False
      with "1.prems" show ?thesis by (simp add: train_loop_stop)
    next
      case True
      show ?thesis
      proof (cases "max_epochs m < epoch_num r + 1")
        case True
        with \<open>keep_training m r\<close> "1.prems" show ?thesis by (simp add: train_loop_exit)
      next
        case False
        with \<open>keep_training m r\<close> "1.prems" "1.IH" [OF \<open>keep_training m r\<close> refl]
        show ?thesis by (simp add: train_loop_step)
      qed
    qed
  qed
next
  assume "keep_training m r"
  then show "train_loop m r =
          (if max_epochs m < epoch_num r + 1 then Inl SystemExit
           else train_loop (epoch m) (record_scores (epoch m) (r\<lparr>epoch_num := epoch_num r + 1\<rparr>)))"
    by (simp add: train_loop_exit train_loop_step)
next
  show "epoch_num (record_scores (epoch m) (r\<lparr>epoch_num := epoch_num r + 1\<rparr>)) = epoch_num r + 1"
    by simp
next
  assume "epoch_num r = 0"
  then show "train_loop_within (nat (max_epochs m) + 1) m r = Some (train_loop m r)"
    using train_loop_within_enough [of m r] by simp
next
  show "\<exists>r0. epoch_num r0 = 0 \<and> length (train_accs r0) = 1 \<and>
         train m = (case train_loop m r0 of Inl e \<Rightarrow> Inl e
                    | Inr (m1, r1) \<Rightarrow> Inr (m1, r1, fst (test False m1), snd (test False m1)))"
    by (rule exI [of _ "\<lparr>epoch_num = 0, train_accs = [fst (test True m)],
                         trainAcc = fst (test True m), trainErr = snd (test True m)\<rparr>"])
       (simp add: train_def Let_def split: prod.splits sum.splits)
qed

theorem epoch_budget_witness:
  "train demo_model = Inr (demo_trained, demo_run, Fin 100, Fin 0)
   \<and> 0 \<le> epoch_num demo_run \<and> epoch_num demo_run \<le> max 0 (max_epochs demo_model)
   \<and> int (length (train_accs demo_run)) = epoch_num demo_run + 1
   \<and> train (demo_model\<lparr>threshold := 101, max_epochs := 2\<rparr>) = Inl SystemExit
   \<and> keep_training demo_model demo_run0
   \<and> train_loop demo_model demo_run0
        = train_loop (epoch demo_model)
            (record_scores (epoch demo_model) (demo_run0\<lparr>epoch_num := epoch_num demo_run0 + 1\<rparr>))
   \<and> epoch_num demo_run0 = 0
   \<and> train_loop_within 11 demo_model demo_run0 = Some (train_loop demo_model demo_run0)"
  using epoch_budget [where m = demo_model and m' = demo_trained and r' = demo_run
                        and ta = "Fin 100" and te = "Fin 0" and r = demo_run0]
        epoch_budget [where m = "demo_model\<lparr>threshold := 101, max_epochs := 2\<rparr>" and e = SystemExit]
        demo_train_result demo_train_exit
  by (simp add: demo_run0_def demo_model_def keep_training_def np_mean_def last3_def true_divide_def)


section \<open>Scoring and inference\<close>





section \<open>Normalisation, shuffle and split\<close>

text \<open>
  Claim C9. For a dataset with at least one row, every row of \<open>k\<close> columns, and a column
  \<open>j\<close> whose maximum differs from its minimum: normalisation succeeds and keeps the rows in
  place; every row gets the bias 1.0 as column 0 and has \<open>k + 1\<close> columns; the value of
  column \<open>j\<close> lands in column \<open>j + 1\<close> as \<open>(x - min) / (max - min)\<close>, which lies in
  \<open>[0, 1]\<close>, is exactly 0 where \<open>x\<close> is the column's minimum and exactly 1 where it is the
  maximum; and both 0 and 1 occur in the normalised column.
\<close>

theorem normalize_unit_interval:
  assumes "d \<noteq> []" and "\<forall>r \<in> set d. length r = k" and "j < k"
    and "Max ((\<lambda>r. r ! j) ` set d) \<noteq> Min ((\<lambda>r. r ! j) ` set d)"
  shows "\<exists>nm. normalize d = Inr nm \<and> length nm = length d
     \<and> (\<forall>i < length d.
           length (nm ! i) = Suc k
           \<and> nm ! i ! 0 = Fin 1
           \<and> nm ! i ! Suc j = Fin ((d ! i ! j - Min ((\<lambda>r. r ! j) ` set d))
                                    / (Max ((\<lambda>r. r ! j) ` set d) - Min ((\<lambda>r. r ! j) ` set d)))
           \<and> 0 \<le> (d ! i ! j - Min ((\<lambda>r. r ! j) ` set d))
                    / (Max ((\<lambda>r. r ! j) ` set d) - Min ((\<lambda>r. r ! j) ` set d))
           \<and> (d ! i ! j - Min ((\<lambda>r. r ! j) ` set d))
                    / (Max ((\<lambda>r. r ! j) ` set d) - Min ((\<lambda>r. r ! j) ` set d)) \<le> 1
           \<and> (d ! i ! j = Min ((\<lambda>r. r ! j) ` set d) \<longrightarrow> nm ! i ! Suc j = Fin 0)
           \<and> (d ! i ! j = Max ((\<lambda>r. r ! j) ` set d) \<longrightarrow> nm ! i ! Suc j = Fin 1))
     \<and> (\<exists>i < length d. nm ! i ! Suc j = Fin 0)
     \<and> (\<exists>i < length d. nm ! i ! Suc j = Fin 1)"
proof -
  let ?col = "(\<lambda>r. r ! j) ` set d"
  let ?mx = "Max ?col" and ?mn = "Min ?col"
  obtain maxima where mx: "amax d = Inr maxima" "length maxima = k" "maxima ! j = ?mx"
    using amax_column [OF assms(1-3)] by blast
  obtain minima where mn: "amin d = Inr minima" "length minima = k" "minima ! j = ?mn"
    using amin_column [OF assms(1-3)] by blast
  let ?nm = "map (\<lambda>r. Fin 1 # normalize_row maxima minima r) d"
  have nm: "normalize d = Inr ?nm"
    by (simp add: normalize_def mx mn)
  have fin: "finite ?col" and ne: "?col \<noteq> {}" using assms(1) by simp_all
  have lt: "?mn < ?mx"
    using assms(4) Max_ge [OF fin Min_in [OF fin ne]] by linarith
  have row: "length (?nm ! i) = Suc k \<and> ?nm ! i ! 0 = Fin 1
           \<and> ?nm ! i ! Suc j = Fin ((d ! i ! j - ?mn) / (?mx - ?mn))
           \<and> 0 \<le> (d ! i ! j - ?mn) / (?mx - ?mn)
           \<and> (d ! i ! j - ?mn) / (?mx - ?mn) \<le> 1
           \<and> (d ! i ! j = ?mn \<longrightarrow> ?nm ! i ! Suc j = Fin 0)
           \<and> (d ! i ! j = ?mx \<longrightarrow> ?nm ! i ! Suc j = Fin 1)" if i: "i < length d" for i
  proof -
    have mem: "d ! i \<in> set d" using i by simp
    then have len: "length (d ! i) = k" using assms(2) by blast
    have "d ! i ! j \<in> ?col" using mem by blast
    then have lo: "?mn \<le> d ! i ! j" and hi: "d ! i ! j \<le> ?mx"
      using fin by simp_all
    have entry: "?nm ! i ! Suc j = Fin ((d ! i ! j - ?mn) / (?mx - ?mn))"
      using i len assms(3) lt
      by (simp add: nth_normalize_row mx mn true_divide_def)
    have "0 \<le> (d ! i ! j - ?mn) / (?mx - ?mn)" and "(d ! i ! j - ?mn) / (?mx - ?mn) \<le> 1"
      using lo hi lt by (simp_all add: divide_le_eq)
    moreover have "d ! i ! j = ?mn \<longrightarrow> ?nm ! i ! Suc j = Fin 0"
      using entry by simp
    moreover have "d ! i ! j = ?mx \<longrightarrow> ?nm ! i ! Suc j = Fin 1"
      using entry lt by simp
    moreover have "length (?nm ! i) = Suc k" and "?nm ! i ! 0 = Fin 1"
      using i len by (simp_all add: length_normalize_row mx mn)
    ultimately show ?thesis using entry by blast
  qed
  have "?mn \<in> ?col" using fin ne by (rule Min_in)
  then obtain i0 where i0: "i0 < length d" "d ! i0 ! j = ?mn"
    by (auto simp: in_set_conv_nth)
  have "?mx \<in> ?col" using fin ne by (rule Max_in)
  then obtain i1 where i1: "i1 < length d" "d ! i1 ! j = ?mx"
    by (auto simp: in_set_conv_nth)
  have ex0: "\<exists>i < length d. ?nm ! i ! Suc j = Fin 0"
    using i0 row [OF i0(1)] by blast
  have ex1: "\<exists>i < length d. ?nm ! i ! Suc j = Fin 1"
    using i1 row [OF i1(1)] by blast
  have len: "length ?nm = length d" by simp
  show ?thesis
    by (rule exI [of _ ?nm]) (use nm len row ex0 ex1 in blast)
qed

theorem normalize_unit_interval_witness:
  "demo_data \<noteq> [] \<and> map length demo_data = [2, 2, 2] \<and> (0 :: nat) < 2
   \<and> Max ((\<lambda>r. r ! 0) ` set demo_data) = 7 \<and> Min ((\<lambda>r. r ! 0) ` set demo_data) = 2
   \<and> normalize demo_data
        = Inr [[Fin 1, Fin 0, Fin 0], [Fin 1, Fin 1, Fin 1], [Fin 1, Fin (1 / 5), Fin 0]]
   \<and> (\<exists>nm. normalize demo_data = Inr nm \<and> length nm = 3
          \<and> nm ! 0 ! Suc 0 = Fin 0 \<and> nm ! 1 ! Suc 0 = Fin 1 \<and> nm ! 2 ! Suc 0 = Fin (1 / 5)
          \<and> nm ! 0 ! 0 = Fin 1 \<and> nm ! 1 ! 0 = Fin 1 \<and> nm ! 2 ! 0 = Fin 1)"
proof -
  have rect: "\<forall>r \<in> set demo_data. length r = 2" and ne: "demo_data \<noteq> []"
    by (simp_all add: demo_data_def)
  have mx: "Max ((\<lambda>r. r ! 0) ` set demo_data) = 7" and mn: "Min ((\<lambda>r. r ! 0) ` set demo_data) = 2"
    by (simp_all add: demo_column)
  have "Max ((\<lambda>r. r ! 0) ` set demo_data) \<noteq> Min ((\<lambda>r. r ! 0) ` set demo_data)"
    by (simp add: mx mn)
  from normalize_unit_interval [OF ne rect _ this] demo_normalize mx mn ne
  show ?thesis
    by (simp add: demo_data_def)
qed



text \<open>
  Claim C10. \<open>initialize\<close> with shuffle true shuffles a view of the stored Normalized
  Dataset: after the call \<open>self.norm\<close> itself is the shuffled array (the same object
  \<open>self.shuffled\<close> names), it holds the same rows as before, each as often, and the subsets
  are slices of it; there are calls after which the order differs from the one before.
  With shuffle false the stored dataset stays as it is, that is, in the order the last
  shuffle left.
\<close>

theorem shuffle_in_place:
  "(initialize np True m = Inr m' \<longrightarrow>
      norm m' = np_shuffle (legacy_draw np) (norm m)
      \<and> shuffled m' = norm m'
      \<and> mset (norm m') = mset (norm m)
      \<and> length (norm m') = length (norm m)
      \<and> trainSS m' @ testSS m' = norm m')
   \<and> (initialize np False m = Inr m' \<longrightarrow> norm m' = norm m)
   \<and> (\<exists>np0 m0 m1. initialize np0 True m0 = Inr m1 \<and> norm m1 \<noteq> norm m0)"
proof (intro conjI impI)
  assume a: "initialize np True m = Inr m'"
  note ini = initialize_shuffle [OF a]
  show "norm m' = np_shuffle (legacy_draw np) (norm m)" by (rule ini)
  show "shuffled m' = norm m'" by (rule ini)
  show "mset (norm m') = mset (norm m)" by (simp add: ini(1) np_shuffle_perm)
  show "length (norm m') = length (norm m)" by (simp add: ini(1))
  show "trainSS m' @ testSS m' = norm m'" by (simp add: ini(3,4) slices_partition)
next
  assume "initialize np False m = Inr m'"
  then have "m' = m\<lparr>weights := weights m'\<rparr>" by (rule initialize_no_shuffle)
  then have "norm m' = norm (m\<lparr>weights := weights m'\<rparr>)" by simp
  then show "norm m' = norm m" by simp
next
  have "norm demo_model \<noteq> norm demo_fresh"
    by (simp add: demo_model_def demo_fresh_def)
  with demo_initialize
  show "\<exists>np0 m0 m1. initialize np0 True m0 = Inr m1 \<and> norm m1 \<noteq> norm m0"
    by blast
qed

theorem shuffle_in_place_witness:
  "initialize demo_numpy True demo_fresh = Inr demo_model
   \<and> norm demo_model = np_shuffle (legacy_draw demo_numpy) (norm demo_fresh)
   \<and> norm demo_model \<noteq> norm demo_fresh
   \<and> shuffled demo_model = norm demo_model
   \<and> mset (norm demo_model) = mset (norm demo_fresh)
   \<and> trainSS demo_model @ testSS demo_model = norm demo_model
   \<and> initialize demo_numpy False demo_model = Inr demo_model"
  using shuffle_in_place [of demo_numpy demo_fresh demo_model]
        shuffle_in_place [of demo_numpy demo_model demo_model]
        demo_initialize demo_reinitialize
  by (simp add: demo_fresh_def demo_model_def demo_numpy_def demo_shuffle)


section \<open>Seeds\<close>

text \<open>
  Claim C4, as stated, fails: two constructions from the same data with the same integer
  seed draw the same weights but, when numpy's global generator draws differently for the
  two shuffles, split the data differently. The seed is handed to the weight generator
  only; the shuffle reads the global generator. Initialising one object twice splits
  differently even when the global generator repeats its draws, because the second shuffle
  starts from the order the first one left in \<open>self.norm\<close>.
\<close>

theorem seed_split_counterexample:
  "init demo_numpy demo_data (1 / 2) (6 / 10) 1 (Some 5) 10 False = Inr demo_model
   \<and> init (demo_numpy\<lparr>legacy_draw := (\<lambda>i. i)\<rparr>) demo_data (1 / 2) (6 / 10) 1 (Some 5) 10 False
        = Inr demo_model_unshuffled
   \<and> weights demo_model = weights demo_model_unshuffled
   \<and> trainSS demo_model \<noteq> trainSS demo_model_unshuffled
   \<and> testSS demo_model \<noteq> testSS demo_model_unshuffled
   \<and> initialize demo_numpy True demo_fresh = Inr demo_model
   \<and> initialize demo_numpy True demo_model = Inr demo_model_again
   \<and> seed demo_fresh = seed demo_model
   \<and> weights demo_model = weights demo_model_again
   \<and> trainSS demo_model \<noteq> trainSS demo_model_again
   \<and> testSS demo_model \<noteq> testSS demo_model_again"
  using demo_init demo_init_unshuffled demo_initialize demo_initialize_again
  by (simp add: demo_model_def demo_model_unshuffled_def demo_model_again_def demo_fresh_def)

text \<open>
  Claim C4, amended. Two constructions from the same rectangular data with the same
  integer seed produce identical initial weight vectors, whatever the global generator
  draws. The Normalized Dataset's order and the Training/Testing split do not depend on
  the seed: two constructions from the same data with the same train fraction produce
  identical splits when the global generator's draws for their shuffles are identical.
  Initialising one object again draws the same weights as before.
\<close>

theorem seed_fixes_weights_only:
  "((\<forall>r \<in> set dat. length r = k)
      \<and> init np1 dat tr thr lr (Some s) me vb = Inr m1
      \<and> init np2 dat tr thr lr (Some s) me vb = Inr m2
      \<and> pcg64_random np1 = pcg64_random np2
     \<longrightarrow> weights m1 = weights m2)
   \<and> (init np1 dat tr thr1 lr1 sd1 me1 vb1 = Inr m1
      \<and> init np2 dat tr thr2 lr2 sd2 me2 vb2 = Inr m2
      \<and> legacy_draw np1 = legacy_draw np2
     \<longrightarrow> norm m1 = norm m2 \<and> trainSS m1 = trainSS m2 \<and> testSS m1 = testSS m2)
   \<and> (norm m \<noteq> [] \<and> (\<forall>r \<in> set (norm m). length r = n) \<and> seed m = Some s
      \<and> initialize np1 sh1 m = Inr m1 \<and> initialize np2 sh2 m1 = Inr m2
      \<and> pcg64_random np1 = pcg64_random np2
     \<longrightarrow> weights m1 = weights m2)"
proof (intro conjI impI)
  assume a: "(\<forall>r \<in> set dat. length r = k)
      \<and> init np1 dat tr thr lr (Some s) me vb = Inr m1
      \<and> init np2 dat tr thr lr (Some s) me vb = Inr m2
      \<and> pcg64_random np1 = pcg64_random np2"
  from a init_Inr [of np1 dat tr thr lr "Some s" me vb m1]
  obtain nm ws1 where nm: "normalize dat = Inr nm"
    and n1: "norm m1 = np_shuffle (legacy_draw np1) nm"
    and w1: "default_rng_random np1 (Some s) (int (ncols (norm m1)) - 1) = Inr ws1"
            "weights m1 = map Fin ws1"
    by auto
  from a nm init_Inr [of np2 dat tr thr lr "Some s" me vb m2]
  obtain ws2 where n2: "norm m2 = np_shuffle (legacy_draw np2) nm"
    and w2: "default_rng_random np2 (Some s) (int (ncols (norm m2)) - 1) = Inr ws2"
            "weights m2 = map Fin ws2"
    by auto
  from a have rect: "\<forall>r \<in> set dat. length r = k" by simp
  from normalize_rows [OF nm rect] have rows: "nm \<noteq> []" "\<forall>r \<in> set nm. length r = Suc k"
    by simp_all
  have "ncols (norm m1) = Suc k" and "ncols (norm m2) = Suc k"
    using rows by (simp_all add: n1 n2 ncols_np_shuffle)
  with w1 w2 a show "weights m1 = weights m2"
    by (simp add: default_rng_random_def)
next
  assume a: "init np1 dat tr thr1 lr1 sd1 me1 vb1 = Inr m1
      \<and> init np2 dat tr thr2 lr2 sd2 me2 vb2 = Inr m2
      \<and> legacy_draw np1 = legacy_draw np2"
  from a init_Inr [of np1 dat tr thr1 lr1 sd1 me1 vb1 m1]
  obtain nm where nm: "normalize dat = Inr nm"
    and m1: "norm m1 = np_shuffle (legacy_draw np1) nm"
       "trainSS m1 = slice_to (rint (tr * real (length nm))) (norm m1)"
       "testSS m1 = slice_from (rint (tr * real (length nm))) (norm m1)"
    by auto
  from a nm init_Inr [of np2 dat tr thr2 lr2 sd2 me2 vb2 m2]
  have m2: "norm m2 = np_shuffle (legacy_draw np2) nm"
       "trainSS m2 = slice_to (rint (tr * real (length nm))) (norm m2)"
       "testSS m2 = slice_from (rint (tr * real (length nm))) (norm m2)"
    by auto
  from a m1 m2 show "norm m1 = norm m2" and "trainSS m1 = trainSS m2" and "testSS m1 = testSS m2"
    by simp_all
next
  assume "norm m \<noteq> [] \<and> (\<forall>r \<in> set (norm m). length r = n) \<and> seed m = Some s
      \<and> initialize np1 sh1 m = Inr m1 \<and> initialize np2 sh2 m1 = Inr m2
      \<and> pcg64_random np1 = pcg64_random np2"
  then show "weights m1 = weights m2"
    using reinitialize_same_weights [of m n s np1 sh1 m1 np2 sh2 m2] by blast
qed

theorem seed_fixes_weights_only_witness:
  "map length demo_data = [2, 2, 2]
   \<and> init demo_numpy demo_data (1 / 2) (6 / 10) 1 (Some 5) 10 False = Inr demo_model
   \<and> init (demo_numpy\<lparr>legacy_draw := (\<lambda>i. i)\<rparr>) demo_data (1 / 2) (6 / 10) 1 (Some 5) 10 False
        = Inr demo_model_unshuffled
   \<and> pcg64_random demo_numpy = pcg64_random (demo_numpy\<lparr>legacy_draw := (\<lambda>i. i)\<rparr>)
   \<and> weights demo_model = weights demo_model_unshuffled
   \<and> init demo_numpy demo_data (1 / 2) (6 / 10) 1 (Some 7) 10 False
        = Inr (demo_model\<lparr>seed := Some 7, weights := [Fin (7 / 10), Fin (7 / 10)]\<rparr>)
   \<and> legacy_draw demo_numpy = legacy_draw demo_numpy
   \<and> trainSS demo_model = trainSS (demo_model\<lparr>seed := Some 7, weights := [Fin (7 / 10), Fin (7 / 10)]\<rparr>)
   \<and> testSS demo_model = testSS (demo_model\<lparr>seed := Some 7, weights := [Fin (7 / 10), Fin (7 / 10)]\<rparr>)
   \<and> norm demo_fresh \<noteq> [] \<and> map length (norm demo_fresh) = [3, 3, 3]
   \<and> seed demo_fresh = Some 5
   \<and> initialize demo_numpy True demo_fresh = Inr demo_model
   \<and> initialize demo_numpy True demo_model = Inr demo_model_again
   \<and> weights demo_model = weights demo_model_again"
  using seed_fixes_weights_only
    [where m = demo_fresh and n = 3 and s = 5 and ?np1.0 = demo_numpy and ?np2.0 = demo_numpy
       and ?sh1.0 = True and ?sh2.0 = True and ?m1.0 = demo_model and ?m2.0 = demo_model_again]
    demo_initialize demo_initialize_again
    seed_fixes_weights_only
    [where dat = demo_data and k = 2 and ?np1.0 = demo_numpy
       and ?np2.0 = "demo_numpy\<lparr>legacy_draw := (\<lambda>i. i)\<rparr>" and tr = "1 / 2" and thr = "6 / 10"
       and lr = 1 and s = 5 and me = 10 and vb = False and ?m1.0 = demo_model
       and ?m2.0 = demo_model_unshuffled]
    demo_init demo_init_unshuffled demo_init_seed7
  by (simp add: demo_data_def demo_numpy_def demo_fresh_def)

text \<open>
  Claim C5 says that \<open>reset\<close> stores every integer seed it is given. The code tests the
  seed's truth value (\<open>if seed:\<close>) before it calls \<open>set_seed\<close>, so the integer 0 (like the
  empty string and 0.0) is treated as no seed at all: \<open>reset\<close> only re-initialises, the
  stored seed stays what it was and no warning is emitted, although \<open>set_seed(0)\<close> itself
  stores 0. On the concrete object, whose seed is 5, \<open>reset(shuffle=False, seed=0)\<close> gives
  back the object unchanged, where \<open>reset(shuffle=False, seed=7)\<close> stores 7, warns and
  draws new weights.
\<close>

theorem reset_ignores_zero_seed:
  "reset np sh (PyInt 0) m = initialize np sh m
   \<and> reset np sh (PyStr []) m = initialize np sh m
   \<and> reset np sh (PyFloat 0) m = initialize np sh m
   \<and> set_seed (PyInt 0) m
        = Inr (m\<lparr>seed := Some 0, warnings_emitted := warnings_emitted m @ [seed_warning]\<rparr>)
   \<and> seed demo_model = Some 5
   \<and> reset demo_numpy False (PyInt 0) demo_model = Inr demo_model
   \<and> reset demo_numpy False (PyInt 7) demo_model
        = Inr (demo_model\<lparr>seed := Some 7, weights := [Fin (7 / 10), Fin (7 / 10)],
                         warnings_emitted := [seed_warning]\<rparr>)"
proof -
  have "reset demo_numpy False (PyInt 0) demo_model = Inr demo_model"
    by (simp add: reset_def demo_reinitialize)
  moreover have "reset demo_numpy False (PyInt 7) demo_model
        = Inr (demo_model\<lparr>seed := Some 7, weights := [Fin (7 / 10), Fin (7 / 10)],
                         warnings_emitted := [seed_warning]\<rparr>)"
    by (simp add: reset_def set_seed_int init_defs demo_numpy_def demo_model_def)
  moreover have "seed demo_model = Some 5" by (simp add: demo_model_def)
  ultimately show ?thesis
    by (simp add: reset_def set_seed_int)
qed

end
